theory Spec2Isabelle
  imports Complex_Main
begin

section \<open>Levenspiel plot: reactor sizing for three reactors in series\<close>

text \<open>
  A shallow embedding of \<^verbatim>\<open>levenspiel.py\<close>. Python floats are idealised as
  \<^typ>\<open>real\<close>: rounding, overflow and the three-significant-figure formatting of
  the printed volumes are outside the model. What the model keeps is the control flow,
  the arithmetic expressions as written, the exceptions raised by a dictionary lookup of
  an unknown key and by a float division by zero, and the order of the printed reports.
  Drawing (the curve, the rectangles and polygons) has no influence on the printed volumes
  and is left out; the sampled arrays it uses are numpy arrays, on which a division by
  zero gives \<^verbatim>\<open>inf\<close> with a warning and raises nothing.
\<close>

subsection \<open>Exceptions and float division\<close>

datatype error = KeyError string | ZeroDivisionError

text \<open>\<^verbatim>\<open>a / b\<close> on Python floats raises when \<^verbatim>\<open>b\<close> is zero.\<close>

definition fdiv :: "real \<Rightarrow> real \<Rightarrow> error + real" where
  "fdiv a b = (if b = 0 then Inl ZeroDivisionError else Inr (a / b))"

subsection \<open>The kinetics table (lines 6 to 9)\<close>

text \<open>\<^verbatim>\<open>lambda x, k, cA0: 1/(k*cA0*(1-x))\<close>\<close>

definition first_order :: "real \<Rightarrow> real \<Rightarrow> real \<Rightarrow> error + real" where
  "first_order x k cA0 = fdiv 1 (k * cA0 * (1 - x))"

text \<open>\<^verbatim>\<open>lambda x, k, cA0: 1/(k*cA0**2*(1-x)**2)\<close>\<close>

definition second_order :: "real \<Rightarrow> real \<Rightarrow> real \<Rightarrow> error + real" where
  "second_order x k cA0 = fdiv 1 (k * cA0 ^ 2 * (1 - x) ^ 2)"

text \<open>
  \<^verbatim>\<open>lambda x, k, cA0: 1/(k*cA0*(1-x)/(0.5+1.2*k*cA0*(1-x))**2)\<close>:
  the inner quotient is evaluated first and may raise, then the outer one.
\<close>

definition langmuir_hinshelwood :: "real \<Rightarrow> real \<Rightarrow> real \<Rightarrow> error + real" where
  "langmuir_hinshelwood x k cA0 =
     (case fdiv (k * cA0 * (1 - x)) ((0.5 + 1.2 * k * cA0 * (1 - x)) ^ 2) of
        Inl e \<Rightarrow> Inl e
      | Inr d \<Rightarrow> fdiv 1 d)"

text \<open>
  The three keys. Python strings are sequences of code points; the ordinal indicator of
  the second key is the code point \<open>0xBA\<close>.
\<close>

definition key_first_order :: string where
  "key_first_order = ''1er Orden''"

definition key_second_order :: string where
  "key_second_order = [CHR ''2'', CHR 0xBA] @ '' Orden''"

definition key_langmuir_hinshelwood :: string where
  "key_langmuir_hinshelwood = ''Langmuir-Hinshelwood''"

definition Kinetics :: "string \<rightharpoonup> (real \<Rightarrow> real \<Rightarrow> real \<Rightarrow> error + real)" where
  "Kinetics =
     [key_first_order \<mapsto> first_order,
      key_second_order \<mapsto> second_order,
      key_langmuir_hinshelwood \<mapsto> langmuir_hinshelwood]"

text \<open>The expression \<^verbatim>\<open>Kinetics[kinetics](x, k, cA0)\<close> on a float \<^verbatim>\<open>x\<close>.\<close>

definition call_kinetics :: "string \<Rightarrow> real \<Rightarrow> real \<Rightarrow> real \<Rightarrow> error + real" where
  "call_kinetics kinetics x k cA0 =
     (case Kinetics kinetics of
        None \<Rightarrow> Inl (KeyError kinetics)
      | Some f \<Rightarrow> f x k cA0)"

subsection \<open>The three reactors (lines 23 to 66)\<close>

text \<open>
  \<^verbatim>\<open>scipy.integrate.quad\<close> is a library routine outside the repository. It is a
  parameter of the model: it receives the integrand and the two bounds, and either
  propagates an exception raised by the integrand or returns the first component of its
  result.
\<close>

type_synonym quadrature = "(real \<Rightarrow> error + real) \<Rightarrow> real \<Rightarrow> real \<Rightarrow> error + real"

text \<open>
  Each reactor yields the label it prints and its volume. The test is the string
  comparison \<^verbatim>\<open>Reactor1=='CSTR'\<close>; everything else takes the \<^verbatim>\<open>else\<close> branch.
  The feed concentration argument of the kinetics receives \<^verbatim>\<open>k\<close> and the rate
  constant argument receives \<^verbatim>\<open>1.0\<close>, as in the source.
\<close>

definition reactor1 :: "quadrature \<Rightarrow> string \<Rightarrow> real \<Rightarrow> real \<Rightarrow> string \<Rightarrow> error + string \<times> real" where
  "reactor1 quad kinetics k X1 Reactor1 =
     (if Reactor1 = ''CSTR'' then
        (case call_kinetics kinetics X1 1 k of
           Inl e \<Rightarrow> Inl e
         | Inr y1 \<Rightarrow> Inr (''CSTR'', X1 * y1))
      else
        (case quad (\<lambda>x. call_kinetics kinetics x 1 k) 0 X1 of
           Inl e \<Rightarrow> Inl e
         | Inr V1 \<Rightarrow> Inr (''PFR'', V1)))"

definition reactor2 :: "quadrature \<Rightarrow> string \<Rightarrow> real \<Rightarrow> real \<Rightarrow> real \<Rightarrow> string \<Rightarrow> error + string \<times> real" where
  "reactor2 quad kinetics k X1 X2 Reactor2 =
     (if Reactor2 = ''CSTR'' then
        (case call_kinetics kinetics X2 1 k of
           Inl e \<Rightarrow> Inl e
         | Inr y2 \<Rightarrow> Inr (''CSTR'', (X2 - X1) * y2))
      else
        (case quad (\<lambda>x. call_kinetics kinetics x 1 k) X1 X2 of
           Inl e \<Rightarrow> Inl e
         | Inr V2 \<Rightarrow> Inr (''PFR'', V2)))"

definition reactor3 :: "quadrature \<Rightarrow> string \<Rightarrow> real \<Rightarrow> real \<Rightarrow> real \<Rightarrow> string \<Rightarrow> error + string \<times> real" where
  "reactor3 quad kinetics k X2 X3 Reactor3 =
     (if Reactor3 = ''CSTR'' then
        (case call_kinetics kinetics X3 1 k of
           Inl e \<Rightarrow> Inl e
         | Inr y3 \<Rightarrow> Inr (''CSTR'', (X3 - X2) * y3))
      else
        (case quad (\<lambda>x. call_kinetics kinetics x 1 k) X2 X3 of
           Inl e \<Rightarrow> Inl e
         | Inr V3 \<Rightarrow> Inr (''PFR'', V3)))"

subsection \<open>The function \<^verbatim>\<open>plot\<close> (lines 12 to 71)\<close>

text \<open>
  What \<^verbatim>\<open>plot\<close> prints: one line per reactor, with the reactor's number, the label
  and the volume handed to the format, then the line of the total.
\<close>

datatype report = ReactorVolume nat string real | TotalVolume real

text \<open>
  The outcome of a call: the lines printed so far, and the exception that ended the call,
  if one did. Line 16 looks the kinetics up before anything is printed; a reactor that
  raises leaves the lines of the reactors before it on the output.
\<close>

definition plot ::
  "quadrature \<Rightarrow> string \<Rightarrow> real \<Rightarrow> real \<Rightarrow> real \<Rightarrow> real \<Rightarrow> string \<Rightarrow> string \<Rightarrow> string
     \<Rightarrow> report list \<times> error option" where
  "plot quad kinetics k X1 X2 X3 Reactor1 Reactor2 Reactor3 =
     (case Kinetics kinetics of
        None \<Rightarrow> ([], Some (KeyError kinetics))
      | Some f \<Rightarrow>
          (case reactor1 quad kinetics k X1 Reactor1 of
             Inl e \<Rightarrow> ([], Some e)
           | Inr (l1, V1) \<Rightarrow>
               (case reactor2 quad kinetics k X1 X2 Reactor2 of
                  Inl e \<Rightarrow> ([ReactorVolume 1 l1 V1], Some e)
                | Inr (l2, V2) \<Rightarrow>
                    (case reactor3 quad kinetics k X2 X3 Reactor3 of
                       Inl e \<Rightarrow> ([ReactorVolume 1 l1 V1, ReactorVolume 2 l2 V2], Some e)
                     | Inr (l3, V3) \<Rightarrow>
                         ([ReactorVolume 1 l1 V1, ReactorVolume 2 l2 V2,
                           ReactorVolume 3 l3 V3, TotalVolume (V1 + V2 + V3)], None)))))"

subsection \<open>Two concrete quadratures\<close>

text \<open>
  Closed examples need an instance of the quadrature parameter. The first is a one-point
  midpoint rule; the second returns the exact integral of \<open>1 / (1 - x)\<close>, the inverse
  rate of the first-order law at \<open>k = 1\<close>.
\<close>

definition midpoint_rule :: quadrature where
  "midpoint_rule g a b =
     (case g ((a + b) / 2) of Inl e \<Rightarrow> Inl e | Inr y \<Rightarrow> Inr ((b - a) * y))"

definition log_rule :: quadrature where
  "log_rule g a b = Inr (- ln (1 - b) - (- ln (1 - a)))"

section \<open>Properties\<close>

subsection \<open>Helper facts\<close>

lemma Kinetics_first_order: "Kinetics key_first_order = Some first_order"
  by (simp add: Kinetics_def key_first_order_def key_second_order_def
      key_langmuir_hinshelwood_def)

lemma Kinetics_second_order: "Kinetics key_second_order = Some second_order"
  by (simp add: Kinetics_def key_first_order_def key_second_order_def
      key_langmuir_hinshelwood_def)

lemma Kinetics_langmuir_hinshelwood:
  "Kinetics key_langmuir_hinshelwood = Some langmuir_hinshelwood"
  by (simp add: Kinetics_def key_first_order_def key_second_order_def
      key_langmuir_hinshelwood_def)

lemma dom_Kinetics:
  "dom Kinetics = {key_first_order, key_second_order, key_langmuir_hinshelwood}"
  by (auto simp add: Kinetics_def)

lemma call_kinetics_first_order:
  "call_kinetics key_first_order x k cA0 = first_order x k cA0"
  by (simp add: call_kinetics_def Kinetics_first_order)

lemma call_kinetics_second_order:
  "call_kinetics key_second_order x k cA0 = second_order x k cA0"
  by (simp add: call_kinetics_def Kinetics_second_order)

lemma call_kinetics_langmuir_hinshelwood:
  "call_kinetics key_langmuir_hinshelwood x k cA0 = langmuir_hinshelwood x k cA0"
  by (simp add: call_kinetics_def Kinetics_langmuir_hinshelwood)

lemma call_kinetics_registered:
  "call_kinetics kinetics x k cA0 = Inr y \<Longrightarrow> kinetics \<in> dom Kinetics"
  by (auto simp add: call_kinetics_def split: option.splits)

lemma reactor1_CSTR:
  "call_kinetics kinetics X1 1 k = Inr y1 \<Longrightarrow>
   reactor1 quad kinetics k X1 ''CSTR'' = Inr (''CSTR'', X1 * y1)"
  by (simp add: reactor1_def)

lemma reactor2_CSTR:
  "call_kinetics kinetics X2 1 k = Inr y2 \<Longrightarrow>
   reactor2 quad kinetics k X1 X2 ''CSTR'' = Inr (''CSTR'', (X2 - X1) * y2)"
  by (simp add: reactor2_def)

lemma reactor3_CSTR:
  "call_kinetics kinetics X3 1 k = Inr y3 \<Longrightarrow>
   reactor3 quad kinetics k X2 X3 ''CSTR'' = Inr (''CSTR'', (X3 - X2) * y3)"
  by (simp add: reactor3_def)

lemma plot_returns:
  assumes "kinetics \<in> dom Kinetics"
    and "reactor1 quad kinetics k X1 Reactor1 = Inr (l1, V1)"
    and "reactor2 quad kinetics k X1 X2 Reactor2 = Inr (l2, V2)"
    and "reactor3 quad kinetics k X2 X3 Reactor3 = Inr (l3, V3)"
  shows "plot quad kinetics k X1 X2 X3 Reactor1 Reactor2 Reactor3 =
           ([ReactorVolume 1 l1 V1, ReactorVolume 2 l2 V2, ReactorVolume 3 l3 V3,
             TotalVolume (V1 + V2 + V3)], None)"
  using assms by (auto simp add: plot_def)

lemma plot_all_CSTR:
  assumes "call_kinetics kinetics X1 1 k = Inr y1"
    and "call_kinetics kinetics X2 1 k = Inr y2"
    and "call_kinetics kinetics X3 1 k = Inr y3"
  shows "plot quad kinetics k X1 X2 X3 ''CSTR'' ''CSTR'' ''CSTR'' =
           ([ReactorVolume 1 ''CSTR'' (X1 * y1), ReactorVolume 2 ''CSTR'' ((X2 - X1) * y2),
             ReactorVolume 3 ''CSTR'' ((X3 - X2) * y3),
             TotalVolume (X1 * y1 + (X2 - X1) * y2 + (X3 - X2) * y3)], None)"
  using assms(1) [THEN call_kinetics_registered]
  by (intro plot_returns reactor1_CSTR reactor2_CSTR reactor3_CSTR assms)

lemma plot_normal_shape:
  assumes "plot quad kinetics k X1 X2 X3 Reactor1 Reactor2 Reactor3 = (out, None)"
  shows "\<exists>l1 l2 l3 V1 V2 V3.
           reactor1 quad kinetics k X1 Reactor1 = Inr (l1, V1) \<and>
           reactor2 quad kinetics k X1 X2 Reactor2 = Inr (l2, V2) \<and>
           reactor3 quad kinetics k X2 X3 Reactor3 = Inr (l3, V3) \<and>
           out = [ReactorVolume 1 l1 V1, ReactorVolume 2 l2 V2, ReactorVolume 3 l3 V3,
                  TotalVolume (V1 + V2 + V3)]"
  using assms by (auto simp add: plot_def split: option.splits sum.splits prod.splits)

lemma call_kinetics_defined:
  assumes "kinetics \<in> dom Kinetics" and "0 < k" and "x < 1"
  shows "\<exists>y. call_kinetics kinetics x 1 k = Inr y"
proof -
  from assms(2,3) have p: "0 < k * (1 - x)" by simp
  then have q: "0 < 0.5 + 1.2 * k * (1 - x)"
    by (simp add: add_pos_pos mult.assoc)
  from assms(1) consider "kinetics = key_first_order" | "kinetics = key_second_order"
    | "kinetics = key_langmuir_hinshelwood"
    by (auto simp add: dom_Kinetics)
  then show ?thesis
  proof cases
    case 1
    with assms(2,3) show ?thesis
      by (simp add: call_kinetics_first_order first_order_def fdiv_def)
  next
    case 2
    with assms(2,3) show ?thesis
      by (simp add: call_kinetics_second_order second_order_def fdiv_def)
  next
    case 3
    from q have "(0.5 + 1.2 * 1 * k * (1 - x))\<^sup>2 \<noteq> 0" by simp
    moreover from assms(2,3) have "1 * k * (1 - x) \<noteq> 0" by simp
    ultimately show ?thesis
      unfolding 3 call_kinetics_langmuir_hinshelwood langmuir_hinshelwood_def fdiv_def
      by (simp del: mult_eq_0_iff)
  qed
qed

lemma midpoint_rule_returns:
  assumes "a < b" and "\<forall>x. a \<le> x \<and> x \<le> b \<longrightarrow> (\<exists>y. g x = Inr y)"
  shows "\<exists>v. midpoint_rule g a b = Inr v"
proof -
  from assms(1) have "a \<le> (a + b) / 2 \<and> (a + b) / 2 \<le> b" by simp
  with assms(2) obtain y where "g ((a + b) / 2) = Inr y" by blast
  then show ?thesis by (simp add: midpoint_rule_def)
qed

subsection \<open>The kinetics table\<close>

text \<open>
  C4. The table maps the first-order key to \<open>1 / (k * cA0 * (1 - x))\<close>, the second-order
  key to \<open>1 / (k * cA0\<^sup>2 * (1 - x)\<^sup>2)\<close> and the Langmuir-Hinshelwood key to
  \<open>1 / (k * cA0 * (1 - x) / (0.5 + 1.2 * k * cA0 * (1 - x))\<^sup>2)\<close>, each a function of
  its three arguments alone. Where a divisor is zero the function raises instead.
\<close>

theorem Kinetics_table:
  "Kinetics key_first_order = Some first_order \<and>
   Kinetics key_second_order = Some second_order \<and>
   Kinetics key_langmuir_hinshelwood = Some langmuir_hinshelwood \<and>
   first_order x k cA0 =
     (if k * cA0 * (1 - x) = 0 then Inl ZeroDivisionError
      else Inr (1 / (k * cA0 * (1 - x)))) \<and>
   second_order x k cA0 =
     (if k * cA0\<^sup>2 * (1 - x)\<^sup>2 = 0 then Inl ZeroDivisionError
      else Inr (1 / (k * cA0\<^sup>2 * (1 - x)\<^sup>2))) \<and>
   langmuir_hinshelwood x k cA0 =
     (if 0.5 + 1.2 * k * cA0 * (1 - x) = 0 \<or> k * cA0 * (1 - x) = 0 then Inl ZeroDivisionError
      else Inr (1 / (k * cA0 * (1 - x) / (0.5 + 1.2 * k * cA0 * (1 - x))\<^sup>2)))"
  by (simp add: Kinetics_first_order Kinetics_second_order Kinetics_langmuir_hinshelwood
      first_order_def second_order_def langmuir_hinshelwood_def fdiv_def)

theorem Kinetics_table_witness:
  "first_order 0.4 0.5 1 = Inr (10 / 3) \<and>
   second_order 0.4 0.5 2 = Inr (25 / 18) \<and>
   langmuir_hinshelwood 0.5 1 1 = Inr (121 / 50) \<and>
   first_order 1 0.5 1 = Inl ZeroDivisionError"
  using Kinetics_table [of "0.4" "0.5" 1] Kinetics_table [of "0.4" "0.5" 2]
    Kinetics_table [of "0.5" 1 1] Kinetics_table [of 1 "0.5" 1]
  by (simp add: power2_eq_square)



subsection \<open>Segment volumes\<close>

text \<open>
  C1. A segment whose reactor type is \<^verbatim>\<open>'CSTR'\<close> has the volume
  \<open>(Xhi - Xlo) * g Xhi\<close>, where \<open>g\<close> is the inverse rate of the chosen kinetics: for
  the first segment with \<open>Xlo = 0\<close>, for the second over \<open>[X1, X2]\<close> and for the third
  over \<open>[X2, X3]\<close>.
\<close>

theorem CSTR_volume_closed_form:
  "(call_kinetics kinetics X1 1 k = Inr g1 \<longrightarrow>
      reactor1 quad kinetics k X1 ''CSTR'' = Inr (''CSTR'', (X1 - 0) * g1)) \<and>
   (call_kinetics kinetics X2 1 k = Inr g2 \<longrightarrow>
      reactor2 quad kinetics k X1 X2 ''CSTR'' = Inr (''CSTR'', (X2 - X1) * g2)) \<and>
   (call_kinetics kinetics X3 1 k = Inr g3 \<longrightarrow>
      reactor3 quad kinetics k X2 X3 ''CSTR'' = Inr (''CSTR'', (X3 - X2) * g3))"
  by (simp add: reactor1_def reactor2_def reactor3_def)

theorem CSTR_volume_closed_form_witness:
  "reactor1 midpoint_rule key_first_order 0.5 0.4 ''CSTR'' = Inr (''CSTR'', (0.4 - 0) * (10 / 3)) \<and>
   reactor2 midpoint_rule key_first_order 0.5 0.4 0.8 ''CSTR'' = Inr (''CSTR'', (0.8 - 0.4) * 10) \<and>
   reactor3 midpoint_rule key_first_order 0.5 0.8 0.9 ''CSTR'' = Inr (''CSTR'', (0.9 - 0.8) * 20)"
proof -
  have 1: "call_kinetics key_first_order 0.4 1 0.5 = Inr (10 / 3)"
    by (simp add: call_kinetics_first_order first_order_def fdiv_def)
  have 2: "call_kinetics key_first_order 0.8 1 0.5 = Inr 10"
    by (simp add: call_kinetics_first_order first_order_def fdiv_def)
  have 3: "call_kinetics key_first_order 0.9 1 0.5 = Inr 20"
    by (simp add: call_kinetics_first_order first_order_def fdiv_def)
  from CSTR_volume_closed_form [where kinetics = key_first_order and k = "0.5"
      and quad = midpoint_rule and ?X1.0 = "0.4" and ?X2.0 = "0.8" and ?X3.0 = "0.9"
      and ?g1.0 = "10 / 3" and ?g2.0 = 10 and ?g3.0 = 20]
  show ?thesis
    by (simp only: 1 2 3 simp_thms)
qed

lemma reactor1_else:
  "Reactor1 \<noteq> ''CSTR'' \<Longrightarrow>
   reactor1 quad kinetics k X1 Reactor1 =
     map_sum id (Pair ''PFR'') (quad (\<lambda>x. call_kinetics kinetics x 1 k) 0 X1)"
  by (simp add: reactor1_def split: sum.splits)

lemma reactor2_else:
  "Reactor2 \<noteq> ''CSTR'' \<Longrightarrow>
   reactor2 quad kinetics k X1 X2 Reactor2 =
     map_sum id (Pair ''PFR'') (quad (\<lambda>x. call_kinetics kinetics x 1 k) X1 X2)"
  by (simp add: reactor2_def split: sum.splits)

lemma reactor3_else:
  "Reactor3 \<noteq> ''CSTR'' \<Longrightarrow>
   reactor3 quad kinetics k X2 X3 Reactor3 =
     map_sum id (Pair ''PFR'') (quad (\<lambda>x. call_kinetics kinetics x 1 k) X2 X3)"
  by (simp add: reactor3_def split: sum.splits)

lemma reactor1_two_way:
  "reactor1 quad kinetics k X1 Reactor1 =
   reactor1 quad kinetics k X1 (if Reactor1 = ''CSTR'' then ''CSTR'' else ''PFR'')"
  by (simp add: reactor1_def)

lemma reactor2_two_way:
  "reactor2 quad kinetics k X1 X2 Reactor2 =
   reactor2 quad kinetics k X1 X2 (if Reactor2 = ''CSTR'' then ''CSTR'' else ''PFR'')"
  by (simp add: reactor2_def)

lemma reactor3_two_way:
  "reactor3 quad kinetics k X2 X3 Reactor3 =
   reactor3 quad kinetics k X2 X3 (if Reactor3 = ''CSTR'' then ''CSTR'' else ''PFR'')"
  by (simp add: reactor3_def)

lemma plot_two_way:
  "plot quad kinetics k X1 X2 X3 Reactor1 Reactor2 Reactor3 =
     plot quad kinetics k X1 X2 X3
       (if Reactor1 = ''CSTR'' then ''CSTR'' else ''PFR'')
       (if Reactor2 = ''CSTR'' then ''CSTR'' else ''PFR'')
       (if Reactor3 = ''CSTR'' then ''CSTR'' else ''PFR'')"
  unfolding plot_def
  by (subst reactor1_two_way, subst reactor2_two_way, subst reactor3_two_way) (rule refl)

text \<open>
  C10. A reactor type other than the exact string \<^verbatim>\<open>'CSTR'\<close> selects the
  integration branch in each of the three segments, and a call with arbitrary reactor types
  behaves as the call with each type replaced by \<^verbatim>\<open>'CSTR'\<close> or \<^verbatim>\<open>'PFR'\<close>:
  no reactor type is rejected.
\<close>

theorem non_CSTR_is_PFR:
  "(Reactor1 \<noteq> ''CSTR'' \<longrightarrow>
      reactor1 quad kinetics k X1 Reactor1 = reactor1 quad kinetics k X1 ''PFR'' \<and>
      reactor1 quad kinetics k X1 Reactor1 =
        map_sum id (Pair ''PFR'') (quad (\<lambda>x. call_kinetics kinetics x 1 k) 0 X1)) \<and>
   (Reactor2 \<noteq> ''CSTR'' \<longrightarrow>
      reactor2 quad kinetics k X1 X2 Reactor2 = reactor2 quad kinetics k X1 X2 ''PFR'' \<and>
      reactor2 quad kinetics k X1 X2 Reactor2 =
        map_sum id (Pair ''PFR'') (quad (\<lambda>x. call_kinetics kinetics x 1 k) X1 X2)) \<and>
   (Reactor3 \<noteq> ''CSTR'' \<longrightarrow>
      reactor3 quad kinetics k X2 X3 Reactor3 = reactor3 quad kinetics k X2 X3 ''PFR'' \<and>
      reactor3 quad kinetics k X2 X3 Reactor3 =
        map_sum id (Pair ''PFR'') (quad (\<lambda>x. call_kinetics kinetics x 1 k) X2 X3)) \<and>
   plot quad kinetics k X1 X2 X3 Reactor1 Reactor2 Reactor3 =
     plot quad kinetics k X1 X2 X3
       (if Reactor1 = ''CSTR'' then ''CSTR'' else ''PFR'')
       (if Reactor2 = ''CSTR'' then ''CSTR'' else ''PFR'')
       (if Reactor3 = ''CSTR'' then ''CSTR'' else ''PFR'')"
proof -
  have pfr: "''PFR'' \<noteq> ''CSTR''" by simp
  have 1: "reactor1 quad kinetics k X1 Reactor1 = reactor1 quad kinetics k X1 ''PFR''"
    if "Reactor1 \<noteq> ''CSTR''"
    using that by (simp only: reactor1_else pfr not_False_eq_True)
  have 2: "reactor2 quad kinetics k X1 X2 Reactor2 = reactor2 quad kinetics k X1 X2 ''PFR''"
    if "Reactor2 \<noteq> ''CSTR''"
    using that by (simp only: reactor2_else pfr not_False_eq_True)
  have 3: "reactor3 quad kinetics k X2 X3 Reactor3 = reactor3 quad kinetics k X2 X3 ''PFR''"
    if "Reactor3 \<noteq> ''CSTR''"
    using that by (simp only: reactor3_else pfr not_False_eq_True)
  show ?thesis
    using 1 2 3 reactor1_else [of Reactor1 quad kinetics k X1]
      reactor2_else [of Reactor2 quad kinetics k X1 X2]
      reactor3_else [of Reactor3 quad kinetics k X2 X3]
      plot_two_way [of quad kinetics k X1 X2 X3 Reactor1 Reactor2 Reactor3]
    by blast
qed

theorem non_CSTR_is_PFR_witness:
  "reactor1 midpoint_rule key_first_order 0.5 0.4 ''pfr'' = Inr (''PFR'', 1) \<and>
   reactor2 midpoint_rule key_first_order 0.5 0.4 0.8 ''Batch'' = Inr (''PFR'', 2) \<and>
   reactor3 midpoint_rule key_first_order 0.5 0.8 0.9 ''cstr'' = Inr (''PFR'', 4 / 3) \<and>
   plot midpoint_rule key_first_order 0.5 0.4 0.8 0.9 ''pfr'' ''Batch'' ''cstr'' =
     plot midpoint_rule key_first_order 0.5 0.4 0.8 0.9 ''PFR'' ''PFR'' ''PFR''"
proof -
  have n: "''pfr'' \<noteq> ''CSTR''" "''Batch'' \<noteq> ''CSTR''" "''cstr'' \<noteq> ''CSTR''"
    by simp_all
  have 1: "midpoint_rule (\<lambda>x. call_kinetics key_first_order x 1 0.5) 0 0.4 = Inr 1"
    by (simp add: midpoint_rule_def call_kinetics_first_order first_order_def fdiv_def)
  have 2: "midpoint_rule (\<lambda>x. call_kinetics key_first_order x 1 0.5) 0.4 0.8 = Inr 2"
    by (simp add: midpoint_rule_def call_kinetics_first_order first_order_def fdiv_def)
  have 3: "midpoint_rule (\<lambda>x. call_kinetics key_first_order x 1 0.5) 0.8 0.9 = Inr (4 / 3)"
    by (simp add: midpoint_rule_def call_kinetics_first_order first_order_def fdiv_def)
  note t = non_CSTR_is_PFR [where quad = midpoint_rule and kinetics = key_first_order
      and k = "0.5" and ?X1.0 = "0.4" and ?X2.0 = "0.8" and ?X3.0 = "0.9"
      and ?Reactor1.0 = "''pfr''" and ?Reactor2.0 = "''Batch''" and ?Reactor3.0 = "''cstr''"]
  from t n(1) have "reactor1 midpoint_rule key_first_order 0.5 0.4 ''pfr'' =
      map_sum id (Pair ''PFR'') (midpoint_rule (\<lambda>x. call_kinetics key_first_order x 1 0.5) 0 0.4)"
    by blast
  then have r1: "reactor1 midpoint_rule key_first_order 0.5 0.4 ''pfr'' = Inr (''PFR'', 1)"
    by (simp only: 1 map_sum.simps)
  from t n(2) have "reactor2 midpoint_rule key_first_order 0.5 0.4 0.8 ''Batch'' =
      map_sum id (Pair ''PFR'') (midpoint_rule (\<lambda>x. call_kinetics key_first_order x 1 0.5) 0.4 0.8)"
    by blast
  then have r2: "reactor2 midpoint_rule key_first_order 0.5 0.4 0.8 ''Batch'' = Inr (''PFR'', 2)"
    by (simp only: 2 map_sum.simps)
  from t n(3) have "reactor3 midpoint_rule key_first_order 0.5 0.8 0.9 ''cstr'' =
      map_sum id (Pair ''PFR'') (midpoint_rule (\<lambda>x. call_kinetics key_first_order x 1 0.5) 0.8 0.9)"
    by blast
  then have r3: "reactor3 midpoint_rule key_first_order 0.5 0.8 0.9 ''cstr'' = Inr (''PFR'', 4 / 3)"
    by (simp only: 3 map_sum.simps)
  from t have "plot midpoint_rule key_first_order 0.5 0.4 0.8 0.9 ''pfr'' ''Batch'' ''cstr'' =
     plot midpoint_rule key_first_order 0.5 0.4 0.8 0.9
       (if ''pfr'' = ''CSTR'' then ''CSTR'' else ''PFR'')
       (if ''Batch'' = ''CSTR'' then ''CSTR'' else ''PFR'')
       (if ''cstr'' = ''CSTR'' then ''CSTR'' else ''PFR'')"
    by blast
  then have p: "plot midpoint_rule key_first_order 0.5 0.4 0.8 0.9 ''pfr'' ''Batch'' ''cstr'' =
     plot midpoint_rule key_first_order 0.5 0.4 0.8 0.9 ''PFR'' ''PFR'' ''PFR''"
    by (simp only: n if_False)
  from r1 r2 r3 p show ?thesis by blast
qed

lemma right_rectangle_bound:
  fixes G g :: "real \<Rightarrow> real"
  assumes "lo < hi"
    and "\<And>x. lo \<le> x \<Longrightarrow> x \<le> hi \<Longrightarrow> g x \<le> g hi"
    and "\<And>x. lo \<le> x \<Longrightarrow> x \<le> hi \<Longrightarrow> (G has_real_derivative g x) (at x)"
  shows "G hi - G lo \<le> (hi - lo) * g hi"
proof -
  from MVT2 [of lo hi G g, OF assms(1) assms(3)]
  obtain z where z: "lo < z" "z < hi" "G hi - G lo = (hi - lo) * g z"
    by blast
  from z(1,2) have "g z \<le> g hi" by (intro assms(2)) simp_all
  with assms(1) have "(hi - lo) * g z \<le> (hi - lo) * g hi"
    by (intro mult_left_mono) simp_all
  with z(3) show ?thesis by simp
qed

text \<open>
  C7. Where the inverse rate \<open>g\<close> is defined and increasing on \<open>[lo, hi]\<close> with
  \<open>lo < hi\<close>, the CSTR volume \<open>(hi - lo) * g hi\<close> is at least the PFR volume, the
  integral of \<open>g\<close> over the segment. The integral is given through an antiderivative
  \<open>G\<close> of \<open>g\<close> as \<open>G hi - G lo\<close>, and the quadrature is taken to return it.
\<close>

theorem CSTR_at_least_PFR:
  fixes G g :: "real \<Rightarrow> real"
  assumes "lo < hi"
    and defined: "\<And>x. lo \<le> x \<Longrightarrow> x \<le> hi \<Longrightarrow> call_kinetics kinetics x 1 k = Inr (g x)"
    and increasing: "\<And>x y. lo \<le> x \<Longrightarrow> x \<le> y \<Longrightarrow> y \<le> hi \<Longrightarrow> g x \<le> g y"
    and antiderivative: "\<And>x. lo \<le> x \<Longrightarrow> x \<le> hi \<Longrightarrow> (G has_real_derivative g x) (at x)"
    and exact: "quad (\<lambda>x. call_kinetics kinetics x 1 k) lo hi = Inr (G hi - G lo)"
  shows "reactor2 quad kinetics k lo hi ''CSTR'' = Inr (''CSTR'', (hi - lo) * g hi) \<and>
         reactor2 quad kinetics k lo hi ''PFR'' = Inr (''PFR'', G hi - G lo) \<and>
         reactor3 quad kinetics k lo hi ''CSTR'' = Inr (''CSTR'', (hi - lo) * g hi) \<and>
         reactor3 quad kinetics k lo hi ''PFR'' = Inr (''PFR'', G hi - G lo) \<and>
         (lo = 0 \<longrightarrow>
            reactor1 quad kinetics k hi ''CSTR'' = Inr (''CSTR'', (hi - lo) * g hi) \<and>
            reactor1 quad kinetics k hi ''PFR'' = Inr (''PFR'', G hi - G lo)) \<and>
         G hi - G lo \<le> (hi - lo) * g hi"
proof -
  from assms(1) have h: "call_kinetics kinetics hi 1 k = Inr (g hi)"
    by (intro defined) simp_all
  have b: "G hi - G lo \<le> (hi - lo) * g hi"
    using assms(1) by (rule right_rectangle_bound) (simp_all add: increasing antiderivative)
  have 1: "reactor1 quad kinetics k hi ''CSTR'' = Inr (''CSTR'', (hi - lo) * g hi) \<and>
      reactor1 quad kinetics k hi ''PFR'' = Inr (''PFR'', G hi - G lo)" if "lo = 0"
    using h exact unfolding that by (simp add: reactor1_def)
  from h exact have 2: "reactor2 quad kinetics k lo hi ''CSTR'' = Inr (''CSTR'', (hi - lo) * g hi)"
    "reactor2 quad kinetics k lo hi ''PFR'' = Inr (''PFR'', G hi - G lo)"
    by (simp_all add: reactor2_def)
  from h exact have 3: "reactor3 quad kinetics k lo hi ''CSTR'' = Inr (''CSTR'', (hi - lo) * g hi)"
    "reactor3 quad kinetics k lo hi ''PFR'' = Inr (''PFR'', G hi - G lo)"
    by (simp_all add: reactor3_def)
  from 1 2 3 b show ?thesis by blast
qed

text \<open>The first-order and second-order laws are increasing below \<open>x = 1\<close>.\<close>

lemma first_order_rate:
  "k \<noteq> 0 \<Longrightarrow> x \<noteq> 1 \<Longrightarrow> call_kinetics key_first_order x 1 k = Inr (1 / (k * (1 - x)))"
  by (simp add: call_kinetics_first_order first_order_def fdiv_def)

lemma second_order_rate:
  "k \<noteq> 0 \<Longrightarrow> x \<noteq> 1 \<Longrightarrow> call_kinetics key_second_order x 1 k = Inr (1 / (k\<^sup>2 * (1 - x)\<^sup>2))"
  by (simp add: call_kinetics_second_order second_order_def fdiv_def)

lemma first_order_increasing:
  fixes k :: real
  assumes "0 < k" and "x \<le> y" and "y < 1"
  shows "1 / (k * (1 - x)) \<le> 1 / (k * (1 - y))"
  using assms by (intro divide_left_mono mult_pos_pos) simp_all

lemma second_order_increasing:
  fixes k :: real
  assumes "k \<noteq> 0" and "x \<le> y" and "y < 1"
  shows "1 / (k\<^sup>2 * (1 - x)\<^sup>2) \<le> 1 / (k\<^sup>2 * (1 - y)\<^sup>2)"
proof -
  from assms(2,3) have "(1 - y)\<^sup>2 \<le> (1 - x)\<^sup>2"
    by (intro power_mono) simp_all
  then have le: "k\<^sup>2 * (1 - y)\<^sup>2 \<le> k\<^sup>2 * (1 - x)\<^sup>2"
    by (intro mult_left_mono) simp_all
  from assms have py: "0 < k\<^sup>2 * (1 - y)\<^sup>2"
    by simp
  show ?thesis
    by (rule frac_le [OF _ _ py le]) simp_all
qed

lemma first_order_antiderivative:
  fixes k :: real
  assumes "k \<noteq> 0" and "x < 1"
  shows "((\<lambda>x. - ln (1 - x) / k) has_real_derivative 1 / (k * (1 - x))) (at x)"
  using assms by (auto intro!: derivative_eq_intros simp add: field_simps)

lemma second_order_antiderivative:
  fixes k :: real
  assumes "k \<noteq> 0" and "x < 1"
  shows "((\<lambda>x. 1 / (k\<^sup>2 * (1 - x))) has_real_derivative 1 / (k\<^sup>2 * (1 - x)\<^sup>2)) (at x)"
proof -
  from assms have nz: "k\<^sup>2 * (1 - x) \<noteq> 0" by simp
  have "((\<lambda>x. 1 / (k\<^sup>2 * (1 - x))) has_real_derivative
      - (1 * (k\<^sup>2 * (0 - 1))) / ((k\<^sup>2 * (1 - x)) * (k\<^sup>2 * (1 - x)))) (at x)"
    using nz by (auto intro!: derivative_eq_intros)
  also have "- (1 * (k\<^sup>2 * (0 - 1))) / ((k\<^sup>2 * (1 - x)) * (k\<^sup>2 * (1 - x))) =
      1 / (k\<^sup>2 * (1 - x)\<^sup>2)"
    using assms by (simp add: power2_eq_square)
  finally show ?thesis .
qed

lemma first_order_rectangle_bound:
  fixes k lo hi :: real
  assumes "0 < k" and "lo < hi" and "hi < 1"
  shows "- ln (1 - hi) / k - (- ln (1 - lo) / k) \<le> (hi - lo) * (1 / (k * (1 - hi)))"
proof (rule right_rectangle_bound [where G = "\<lambda>x. - ln (1 - x) / k"
      and g = "\<lambda>x. 1 / (k * (1 - x))"])
  show "lo < hi" by fact
  show "1 / (k * (1 - x)) \<le> 1 / (k * (1 - hi))" if "x \<le> hi" for x
    using assms(1) that assms(3) by (rule first_order_increasing)
  show "((\<lambda>x. - ln (1 - x) / k) has_real_derivative 1 / (k * (1 - x))) (at x)"
    if "x \<le> hi" for x
    using that assms(1,3) by (intro first_order_antiderivative) simp_all
qed

lemma second_order_rectangle_bound:
  fixes k lo hi :: real
  assumes "k \<noteq> 0" and "lo < hi" and "hi < 1"
  shows "1 / (k\<^sup>2 * (1 - hi)) - 1 / (k\<^sup>2 * (1 - lo)) \<le> (hi - lo) * (1 / (k\<^sup>2 * (1 - hi)\<^sup>2))"
proof (rule right_rectangle_bound [where G = "\<lambda>x. 1 / (k\<^sup>2 * (1 - x))"
      and g = "\<lambda>x. 1 / (k\<^sup>2 * (1 - x)\<^sup>2)"])
  show "lo < hi" by fact
  show "1 / (k\<^sup>2 * (1 - x)\<^sup>2) \<le> 1 / (k\<^sup>2 * (1 - hi)\<^sup>2)" if "x \<le> hi" for x
    using assms(1) that assms(3) by (rule second_order_increasing)
  show "((\<lambda>x. 1 / (k\<^sup>2 * (1 - x))) has_real_derivative 1 / (k\<^sup>2 * (1 - x)\<^sup>2)) (at x)"
    if "x \<le> hi" for x
    using that assms(1,3) by (intro second_order_antiderivative) simp_all
qed

theorem CSTR_at_least_PFR_witness:
  "reactor2 log_rule key_first_order 1 (1 / 4) (1 / 2) ''CSTR'' = Inr (''CSTR'', 1 / 2) \<and>
   reactor2 log_rule key_first_order 1 (1 / 4) (1 / 2) ''PFR'' =
     Inr (''PFR'', - ln (1 / 2) - (- ln (3 / 4))) \<and>
   - ln (1 / 2) - (- ln (3 / 4)) \<le> (1 / 2 :: real)"
proof -
  have e: "log_rule (\<lambda>x. call_kinetics key_first_order x 1 1) (1 / 4) (1 / 2) =
      Inr (- ln (1 - 1 / 2) / 1 - (- ln (1 - 1 / 4) / 1))"
    by (simp add: log_rule_def)
  from CSTR_at_least_PFR [where lo = "1 / 4" and hi = "1 / 2" and kinetics = key_first_order
      and k = 1 and g = "\<lambda>x. 1 / (1 * (1 - x))" and G = "\<lambda>x. - ln (1 - x) / 1"
      and quad = log_rule, OF _ first_order_rate first_order_increasing
        first_order_antiderivative e]
  show ?thesis by simp
qed

subsection \<open>Whole calls\<close>

text \<open>
  C3. With the first-order law, \<open>k = 0.5\<close>, the checkpoints \<open>0.4\<close>, \<open>0.8\<close>,
  \<open>0.9\<close> and three CSTRs, the volumes are \<open>4/3\<close> (about 1.333), \<open>4\<close> and \<open>2\<close>,
  and the total is \<open>22/3\<close> (about 7.33).
\<close>

theorem end_to_end_first_order:
  "plot quad key_first_order 0.5 0.4 0.8 0.9 ''CSTR'' ''CSTR'' ''CSTR'' =
     ([ReactorVolume 1 ''CSTR'' (4 / 3), ReactorVolume 2 ''CSTR'' 4, ReactorVolume 3 ''CSTR'' 2,
       TotalVolume (22 / 3)], None) \<and>
   \<bar>4 / 3 - 1.333\<bar> < (0.001 :: real) \<and> \<bar>22 / 3 - 7.33\<bar> < (0.01 :: real)"
proof -
  have 1: "call_kinetics key_first_order 0.4 1 0.5 = Inr (10 / 3)"
    by (simp add: call_kinetics_first_order first_order_def fdiv_def)
  have 2: "call_kinetics key_first_order 0.8 1 0.5 = Inr 10"
    by (simp add: call_kinetics_first_order first_order_def fdiv_def)
  have 3: "call_kinetics key_first_order 0.9 1 0.5 = Inr 20"
    by (simp add: call_kinetics_first_order first_order_def fdiv_def)
  show ?thesis
    using plot_all_CSTR [OF 1 2 3, of quad] by simp
qed

text \<open>
  C6. For a registered kinetics, a positive \<open>k\<close>, strictly increasing checkpoints in
  \<open>(0, 1)\<close> and any reactor types, the call returns normally and the reported total is the
  sum of the three segment volumes, provided the quadrature returns a value whenever its
  integrand is defined on the whole interval.
\<close>

theorem total_is_sum:
  assumes "kinetics \<in> dom Kinetics" and "0 < k"
    and "0 < X1" and "X1 < X2" and "X2 < X3" and "X3 < 1"
    and quad_returns: "\<And>g a b. a < b \<Longrightarrow> (\<forall>x. a \<le> x \<and> x \<le> b \<longrightarrow> (\<exists>y. g x = Inr y))
                         \<Longrightarrow> \<exists>v. quad g a b = Inr v"
  shows "\<exists>l1 l2 l3 V1 V2 V3.
           reactor1 quad kinetics k X1 Reactor1 = Inr (l1, V1) \<and>
           reactor2 quad kinetics k X1 X2 Reactor2 = Inr (l2, V2) \<and>
           reactor3 quad kinetics k X2 X3 Reactor3 = Inr (l3, V3) \<and>
           plot quad kinetics k X1 X2 X3 Reactor1 Reactor2 Reactor3 =
             ([ReactorVolume 1 l1 V1, ReactorVolume 2 l2 V2, ReactorVolume 3 l3 V3,
               TotalVolume (V1 + V2 + V3)], None)"
proof -
  have g: "\<exists>y. call_kinetics kinetics x 1 k = Inr y" if "x \<le> X3" for x
    using that assms(1,2,6) by (intro call_kinetics_defined) simp_all
  have q: "\<exists>v. quad (\<lambda>x. call_kinetics kinetics x 1 k) a b = Inr v" if "a < b" "b \<le> X3" for a b
    using that g by (intro quad_returns) auto
  obtain l1 V1 where 1: "reactor1 quad kinetics k X1 Reactor1 = Inr (l1, V1)"
  proof (cases "Reactor1 = ''CSTR''")
    case True
    from g [of X1] assms(4,5) obtain y where "call_kinetics kinetics X1 1 k = Inr y" by auto
    with True that show ?thesis by (simp add: reactor1_def)
  next
    case False
    from q [of 0 X1] assms(3,4,5) obtain v
      where "quad (\<lambda>x. call_kinetics kinetics x 1 k) 0 X1 = Inr v" by auto
    with False that show ?thesis by (simp add: reactor1_def)
  qed
  obtain l2 V2 where 2: "reactor2 quad kinetics k X1 X2 Reactor2 = Inr (l2, V2)"
  proof (cases "Reactor2 = ''CSTR''")
    case True
    from g [of X2] assms(5) obtain y where "call_kinetics kinetics X2 1 k = Inr y" by auto
    with True that show ?thesis by (simp add: reactor2_def)
  next
    case False
    from q [of X1 X2] assms(4,5) obtain v
      where "quad (\<lambda>x. call_kinetics kinetics x 1 k) X1 X2 = Inr v" by auto
    with False that show ?thesis by (simp add: reactor2_def)
  qed
  obtain l3 V3 where 3: "reactor3 quad kinetics k X2 X3 Reactor3 = Inr (l3, V3)"
  proof (cases "Reactor3 = ''CSTR''")
    case True
    from g [of X3] obtain y where "call_kinetics kinetics X3 1 k = Inr y" by auto
    with True that show ?thesis by (simp add: reactor3_def)
  next
    case False
    from q [of X2 X3] assms(5) obtain v
      where "quad (\<lambda>x. call_kinetics kinetics x 1 k) X2 X3 = Inr v" by auto
    with False that show ?thesis by (simp add: reactor3_def)
  qed
  from plot_returns [OF assms(1) 1 2 3] 1 2 3 show ?thesis by blast
qed

theorem total_is_sum_witness:
  "plot midpoint_rule key_first_order 0.5 0.4 0.8 0.9 ''CSTR'' ''PFR'' ''CSTR'' =
     ([ReactorVolume 1 ''CSTR'' (4 / 3), ReactorVolume 2 ''PFR'' 2, ReactorVolume 3 ''CSTR'' 2,
       TotalVolume (4 / 3 + 2 + 2)], None)"
proof -
  have d: "key_first_order \<in> dom Kinetics" by (simp add: dom_Kinetics)
  have 1: "reactor1 midpoint_rule key_first_order 0.5 0.4 ''CSTR'' = Inr (''CSTR'', 4 / 3)"
    by (simp add: reactor1_def call_kinetics_first_order first_order_def fdiv_def)
  have 2: "reactor2 midpoint_rule key_first_order 0.5 0.4 0.8 ''PFR'' = Inr (''PFR'', 2)"
    by (simp add: reactor2_def midpoint_rule_def call_kinetics_first_order first_order_def
        fdiv_def)
  have 3: "reactor3 midpoint_rule key_first_order 0.5 0.8 0.9 ''CSTR'' = Inr (''CSTR'', 2)"
    by (simp add: reactor3_def call_kinetics_first_order first_order_def fdiv_def)
  from total_is_sum [where quad = midpoint_rule and kinetics = key_first_order and k = "0.5"
      and ?X1.0 = "0.4" and ?X2.0 = "0.8" and ?X3.0 = "0.9"
      and ?Reactor1.0 = "''CSTR''" and ?Reactor2.0 = "''PFR''" and ?Reactor3.0 = "''CSTR''",
      OF d _ _ _ _ _ midpoint_rule_returns]
  obtain l1 l2 l3 V1 V2 V3 where
    r: "reactor1 midpoint_rule key_first_order 0.5 0.4 ''CSTR'' = Inr (l1, V1)"
      "reactor2 midpoint_rule key_first_order 0.5 0.4 0.8 ''PFR'' = Inr (l2, V2)"
      "reactor3 midpoint_rule key_first_order 0.5 0.8 0.9 ''CSTR'' = Inr (l3, V3)"
    and p: "plot midpoint_rule key_first_order 0.5 0.4 0.8 0.9 ''CSTR'' ''PFR'' ''CSTR'' =
      ([ReactorVolume 1 l1 V1, ReactorVolume 2 l2 V2, ReactorVolume 3 l3 V3,
        TotalVolume (V1 + V2 + V3)], None)"
    by auto
  from r 1 2 3 have "l1 = ''CSTR''" "V1 = 4 / 3" "l2 = ''PFR''" "V2 = 2" "l3 = ''CSTR''" "V3 = 2"
    by simp_all
  with p show ?thesis by simp
qed




text \<open>
  C9. A kinetics name that is not a key of the table makes the call fail with the
  lookup's \<^verbatim>\<open>KeyError\<close> before anything is computed or printed.
\<close>

theorem unknown_rate_law:
  "kinetics \<notin> dom Kinetics \<Longrightarrow>
   plot quad kinetics k X1 X2 X3 Reactor1 Reactor2 Reactor3 = ([], Some (KeyError kinetics))"
  by (simp add: plot_def domIff)

theorem unknown_rate_law_witness:
  "''zeroth-order'' \<notin> dom Kinetics \<and>
   plot midpoint_rule ''zeroth-order'' 0.5 0.4 0.8 0.9 ''CSTR'' ''PFR'' ''CSTR'' =
     ([], Some (KeyError ''zeroth-order''))"
proof -
  have h: "''zeroth-order'' \<notin> dom Kinetics"
    by (simp add: dom_Kinetics key_first_order_def key_second_order_def
        key_langmuir_hinshelwood_def)
  show ?thesis
    using h unknown_rate_law [OF h] by simp
qed

end
